theory Spec2Isabelle
  imports Complex_Main
begin

section \<open>JavaScript numbers\<close>

text \<open>
  A JavaScript \<open>number\<close> is a double. The model keeps the three non-finite values apart and
  reads a finite double as the real number it denotes. Comparisons of finite doubles are then
  exactly the comparisons of the reals. \<open>js_add\<close>, \<open>js_sub\<close>, \<open>js_mul\<close> and \<open>js_div\<close>
  give the exact result on finite values; \<open>to_double\<close> below rounds a real to the nearest
  double, and \<open>double_add\<close> and \<open>double_div\<close> are the operators with their rounding.
  The timestamp arithmetic of \<open>isDeviceOnline\<close> and of the export works on integers and
  uses the exact operators: rounding starts above \<open>2^53\<close>, beyond every clock value and
  every valid date. \<open>-0\<close> is identified with \<open>0\<close>.
\<close>

datatype number = NaN | NegInfinity | Finite real | Infinity

datatype js_error = RangeError

text \<open>The relational operators \<open><\<close>, \<open>>\<close> and \<open><=\<close>: every comparison with \<open>NaN\<close> is false.\<close>

fun js_lt :: "number \<Rightarrow> number \<Rightarrow> bool" where
  "js_lt NaN b = False"
| "js_lt a NaN = False"
| "js_lt (Finite x) (Finite y) = (x < y)"
| "js_lt a NegInfinity = False"
| "js_lt NegInfinity b = True"
| "js_lt Infinity b = False"
| "js_lt a Infinity = True"

definition js_gt :: "number \<Rightarrow> number \<Rightarrow> bool" where
  "js_gt a b = js_lt b a"

definition js_le :: "number \<Rightarrow> number \<Rightarrow> bool" where
  "js_le a b = (a \<noteq> NaN \<and> b \<noteq> NaN \<and> \<not> js_lt b a)"

fun js_neg :: "number \<Rightarrow> number" where
  "js_neg NaN = NaN"
| "js_neg NegInfinity = Infinity"
| "js_neg (Finite x) = Finite (- x)"
| "js_neg Infinity = NegInfinity"

fun js_add :: "number \<Rightarrow> number \<Rightarrow> number" where
  "js_add NaN b = NaN"
| "js_add a NaN = NaN"
| "js_add (Finite x) (Finite y) = Finite (x + y)"
| "js_add Infinity NegInfinity = NaN"
| "js_add NegInfinity Infinity = NaN"
| "js_add Infinity b = Infinity"
| "js_add a Infinity = Infinity"
| "js_add NegInfinity b = NegInfinity"
| "js_add a NegInfinity = NegInfinity"

definition js_sub :: "number \<Rightarrow> number \<Rightarrow> number" where
  "js_sub a b = js_add a (js_neg b)"

text \<open>The sign of a number that is not \<open>NaN\<close>, and the infinity of a given sign.\<close>

fun sign_of :: "number \<Rightarrow> real" where
  "sign_of NaN = 0"
| "sign_of NegInfinity = - 1"
| "sign_of (Finite x) = sgn x"
| "sign_of Infinity = 1"

definition inf_of_sign :: "real \<Rightarrow> number" where
  "inf_of_sign s = (if s < 0 then NegInfinity else if 0 < s then Infinity else NaN)"

fun js_mul :: "number \<Rightarrow> number \<Rightarrow> number" where
  "js_mul NaN b = NaN"
| "js_mul a NaN = NaN"
| "js_mul (Finite x) (Finite y) = Finite (x * y)"
| "js_mul a b = inf_of_sign (sign_of a * sign_of b)"

text \<open>Division; a zero divisor is \<open>+0\<close> here.\<close>

fun js_div :: "number \<Rightarrow> number \<Rightarrow> number" where
  "js_div NaN b = NaN"
| "js_div a NaN = NaN"
| "js_div (Finite x) (Finite y) = (if y = 0 then inf_of_sign (sgn x) else Finite (x / y))"
| "js_div (Finite x) b = Finite 0"
| "js_div a (Finite y) = inf_of_sign (sign_of a * (if y = 0 then 1 else sgn y))"
| "js_div a b = NaN"

text \<open>\<open>Math.floor\<close>.\<close>

fun Math_floor :: "number \<Rightarrow> number" where
  "Math_floor (Finite x) = Finite (of_int \<lfloor>x\<rfloor>)"
| "Math_floor a = a"

subsection \<open>Rounding to the nearest double\<close>

text \<open>\<open>ilog2 n\<close> is the position of the leading bit of \<open>n\<close>, for \<open>n \<ge> 1\<close>.\<close>

fun ilog2 :: "nat \<Rightarrow> nat" where
  "ilog2 n = (if n < 2 then 0 else Suc (ilog2 (n div 2)))"

definition pow2 :: "int \<Rightarrow> real" where
  "pow2 e = (if 0 \<le> e then 2 ^ nat e else 1 / 2 ^ nat (- e))"

text \<open>The binary exponent of a positive real \<open>a\<close>: \<open>2^e \<le> a < 2^(e+1)\<close>.\<close>

definition exponent_of :: "real \<Rightarrow> int" where
  "exponent_of a =
     (if 1 \<le> a then int (ilog2 (nat \<lfloor>a\<rfloor>))
      else - int (Suc (ilog2 (nat \<lceil>1 / a\<rceil> - 1))))"

definition round_half_even :: "real \<Rightarrow> int" where
  "round_half_even x =
     (let f = \<lfloor>x\<rfloor>; d = x - of_int f
      in if d < 1 / 2 then f
         else if 1 / 2 < d then f + 1
         else if even f then f else f + 1)"

text \<open>
  Round to nearest, ties to even, with a significand of 53 bits: the spacing of the doubles
  around \<open>x\<close> is \<open>2^(e-52)\<close>, with \<open>e\<close> the exponent of \<open>x\<close> and at least \<open>-1022\<close>
  (the subnormal range); a result of \<open>2^1024\<close> or more is an infinity.
\<close>

definition to_double :: "real \<Rightarrow> number" where
  "to_double x =
     (if x = 0 then Finite 0
      else
        (let a = \<bar>x\<bar>;
             e = max (exponent_of a) (- 1022);
             q = pow2 (e - 52);
             r = of_int (round_half_even (a / q)) * q
         in if 2 ^ 1024 \<le> r then (if x < 0 then NegInfinity else Infinity)
            else Finite (if x < 0 then - r else r)))"

fun round_number :: "number \<Rightarrow> number" where
  "round_number (Finite x) = to_double x"
| "round_number a = a"

definition double_add :: "number \<Rightarrow> number \<Rightarrow> number" where
  "double_add a b = round_number (js_add a b)"

definition double_div :: "number \<Rightarrow> number \<Rightarrow> number" where
  "double_div a b = round_number (js_div a b)"

subsection \<open>\<open>Math.min\<close> and \<open>Math.max\<close>\<close>

text \<open>
  \<open>Math.min(...values)\<close> and \<open>Math.max(...values)\<close>: the running extreme starts at
  \<open>Infinity\<close> (\<open>-Infinity\<close> for the maximum), any \<open>NaN\<close> argument makes the result \<open>NaN\<close>.
  The spread passes every element as an argument of one call, and the call throws a
  \<open>RangeError\<close> when there are more of them than the engine accepts; that number depends
  on the engine and is the parameter \<open>max_args\<close>.
\<close>

fun Math_min_from :: "number \<Rightarrow> number list \<Rightarrow> number" where
  "Math_min_from lowest [] = lowest"
| "Math_min_from lowest (n # ns) =
     (if n = NaN then NaN else Math_min_from (if js_lt n lowest then n else lowest) ns)"

definition Math_min :: "nat \<Rightarrow> number list \<Rightarrow> js_error + number" where
  "Math_min max_args values =
     (if max_args < length values then Inl RangeError
      else Inr (Math_min_from Infinity values))"

fun Math_max_from :: "number \<Rightarrow> number list \<Rightarrow> number" where
  "Math_max_from highest [] = highest"
| "Math_max_from highest (n # ns) =
     (if n = NaN then NaN else Math_max_from (if js_gt n highest then n else highest) ns)"

definition Math_max :: "nat \<Rightarrow> number list \<Rightarrow> js_error + number" where
  "Math_max max_args values =
     (if max_args < length values then Inl RangeError
      else Inr (Math_max_from NegInfinity values))"

section \<open>\<open>Number.parseInt\<close> with no radix\<close>

text \<open>
  A string is the list of its code units; the white space and line terminators below 256 are
  TAB, LF, VT, FF, CR, SP and NBSP. \<open>parseInt\<close> skips leading white space, reads an optional
  sign, switches to radix 16 after a \<open>0x\<close> or \<open>0X\<close> prefix, and reads digits as long as
  there are any. No digit at all gives \<open>NaN\<close>; what follows the digits is ignored.
  The integer read is kept exact here; the builtin rounds it to a double, which changes it
  only above \<open>2^53\<close>.
\<close>

definition isWhiteSpace :: "char \<Rightarrow> bool" where
  "isWhiteSpace c = ((of_char c :: nat) \<in> {9, 10, 11, 12, 13, 32, 160})"

definition digitValue :: "char \<Rightarrow> nat option" where
  "digitValue c =
     (let k = (of_char c :: nat) in
      if 48 \<le> k \<and> k \<le> 57 then Some (k - 48)
      else if 97 \<le> k \<and> k \<le> 122 then Some (k - 87)
      else if 65 \<le> k \<and> k \<le> 90 then Some (k - 55)
      else None)"

definition radixDigit :: "nat \<Rightarrow> char \<Rightarrow> nat option" where
  "radixDigit R c = (case digitValue c of None \<Rightarrow> None | Some v \<Rightarrow> if v < R then Some v else None)"

fun digits_prefix :: "nat \<Rightarrow> string \<Rightarrow> nat list" where
  "digits_prefix R [] = []"
| "digits_prefix R (c # cs) =
     (case radixDigit R c of None \<Rightarrow> [] | Some v \<Rightarrow> v # digits_prefix R cs)"

definition mathInt :: "nat \<Rightarrow> nat list \<Rightarrow> nat" where
  "mathInt R ds = foldl (\<lambda>acc v. acc * R + v) 0 ds"

definition strip_sign :: "string \<Rightarrow> int \<times> string" where
  "strip_sign S =
     (case S of [] \<Rightarrow> (1, [])
      | c # r \<Rightarrow> if c = CHR ''-'' then (- 1, r) else if c = CHR ''+'' then (1, r) else (1, S))"

definition strip_prefix :: "string \<Rightarrow> nat \<times> string" where
  "strip_prefix S =
     (case S of
        c # x # r \<Rightarrow>
          if c = CHR ''0'' \<and> (x = CHR ''x'' \<or> x = CHR ''X'') then (16, r) else (10, S)
      | _ \<Rightarrow> (10, S))"

definition parseInt :: "string \<Rightarrow> number" where
  "parseInt s =
     (let (sign, S1) = strip_sign (dropWhile isWhiteSpace s);
          (R, S2) = strip_prefix S1;
          Z = digits_prefix R S2
      in if Z = [] then NaN else Finite (of_int (sign * int (mathInt R Z))))"

section \<open>The data model\<close>

text \<open>
  \<open>DeviceData\<close> (dashboard) and \<open>RangeData\<close> (analytics) are the same interface. The field
  \<open>id\<close> is \<open>id_field\<close> here.
\<close>

record DeviceData =
  id_field :: string
  device_id :: string
  temperature :: number
  humidity :: number
  pressure :: number
  co :: number
  co2 :: number
  methane :: number
  lpg :: number
  pm25 :: number
  pm10 :: number
  noise :: number
  light :: number
  recorded_at :: string

type_synonym RangeData = DeviceData

record Device =
  device_id :: string
  device_name :: string
  device_imei :: string
  is_active :: bool
  user_id :: string
  createdAt :: string
  updatedAt :: string

section \<open>Dashboard: the online-status evaluator\<close>

text \<open>
  \<open>isDeviceOnline(device, latestData)\<close>; the value of \<open>Date.now()\<close> is the argument
  \<open>now_ms\<close>. A missing or falsy \<open>latestData\<close> is \<open>None\<close>.
\<close>

definition isDeviceOnline :: "int \<Rightarrow> Device \<Rightarrow> DeviceData option \<Rightarrow> bool" where
  "isDeviceOnline now_ms device latestData =
     (case latestData of
        None \<Rightarrow> False
      | Some d \<Rightarrow>
          (let lastUpdate = js_mul (parseInt (recorded_at d)) (Finite 1000);
               now = Finite (of_int now_ms)
           in js_le (js_sub now lastUpdate) (Finite 20000)))"

section \<open>Dashboard: the colour of a metric card\<close>

definition getStatusColor :: "number \<Rightarrow> string \<Rightarrow> string" where
  "getStatusColor val type =
     (if type = ''temperature'' then
        (if js_lt val (Finite 18) \<or> js_gt val (Finite 26) then ''text-red-600''
         else ''text-green-600'')
      else if type = ''humidity'' then
        (if js_lt val (Finite 30) \<or> js_gt val (Finite 70) then ''text-yellow-600''
         else ''text-green-600'')
      else if type = ''co'' then
        (if js_gt val (Finite 3) then ''text-red-600'' else ''text-green-600'')
      else if type = ''pm25'' then
        (if js_gt val (Finite 300) then ''text-red-600''
         else if js_gt val (Finite 150) then ''text-yellow-600''
         else ''text-green-600'')
      else ''text-gray-600'')"

section \<open>HTTP requests\<close>

text \<open>
  What an awaited \<open>fetch\<close> does: it throws (\<open>FetchThrows\<close>, the network exception), or it
  yields a response with an HTTP status and a body; awaiting \<open>response.json()\<close> throws
  (\<open>JsonThrows\<close>) or yields the parsed value. \<open>response.ok\<close> is a status from 200 to 299.
\<close>

datatype 'a json_result = JsonThrows | JsonValue 'a

datatype 'a fetch_result = FetchThrows | Response nat "'a json_result"

definition ok :: "nat \<Rightarrow> bool" where
  "ok status = (200 \<le> status \<and> status \<le> 299)"

text \<open>
  A request fails when \<open>fetch\<close> throws (network exception), when the response is not OK,
  or when the body of an OK response does not parse.
\<close>

definition request_failed :: "'a fetch_result \<Rightarrow> bool" where
  "request_failed r =
     (case r of
        FetchThrows \<Rightarrow> True
      | Response status body \<Rightarrow> \<not> ok status \<or> body = JsonThrows)"

section \<open>Dashboard: state and refresh operations\<close>

text \<open>
  The \<open>useState\<close> variables of \<open>DashboardPage\<close>. Every operation below takes two states:
  \<open>c\<close>, the values its closure reads (those of the render that created it), and \<open>st\<close>, the
  current state its setters update; it returns the updated state. An operation is run here
  without another flow's setters in between.
\<close>

record dashboard_state =
  devices :: "Device list"
  selectedDevice :: string
  deviceData :: "DeviceData option"
  loading :: bool
  dataLoading :: bool
  error :: string
  autoRefresh :: bool
  deviceStatuses :: "string \<rightharpoonup> bool"

text \<open>The initial values given to \<open>useState\<close>.\<close>

definition dashboard_initial :: dashboard_state where
  "dashboard_initial =
     \<lparr>devices = [], selectedDevice = '''', deviceData = None, loading = True,
      dataLoading = False, error = '''', autoRefresh = False, deviceStatuses = Map.empty\<rparr>"

text \<open>
  The inner \<open>try\<close> of the loop of \<open>fetchDevices\<close>: the value stored for one device, from
  the outcome of its latest-reading request.
\<close>

definition probe_status :: "int \<Rightarrow> Device \<Rightarrow> DeviceData option fetch_result \<Rightarrow> bool" where
  "probe_status now_ms device dataResponse =
     (case dataResponse of
        FetchThrows \<Rightarrow> False
      | Response status body \<Rightarrow>
          if ok status then
            (case body of
               JsonThrows \<Rightarrow> False
             | JsonValue reading \<Rightarrow> isDeviceOnline now_ms device reading)
          else False)"

text \<open>
  The status map is a plain object, and the map of the model holds its own properties.
  The assignment \<open>statuses[key] = value\<close> of a boolean creates or overwrites the own
  property \<open>key\<close>, except for the key \<open>__proto__\<close>: that name is an accessor inherited
  from \<open>Object.prototype\<close>, whose setter ignores a value that is no object, so the
  assignment stores nothing. (The object literal \<open>{...prev, [deviceId]: value}\<close> of
  \<open>fetchDeviceData\<close> defines an own property for every key.)
\<close>

definition assign_property :: "(string \<rightharpoonup> bool) \<Rightarrow> string \<Rightarrow> bool \<Rightarrow> (string \<rightharpoonup> bool)" where
  "assign_property obj key v = (if key = ''__proto__'' then obj else obj(key \<mapsto> v))"

text \<open>
  The loop \<open>for (const device of data)\<close>. \<open>latest i d\<close> is the outcome of the \<open>i\<close>-th
  request of the cycle, made for device identifier \<open>d\<close>, and \<open>clock i\<close> the value of
  \<open>Date.now()\<close> in that iteration.
\<close>

fun status_loop ::
  "(nat \<Rightarrow> string \<Rightarrow> DeviceData option fetch_result) \<Rightarrow> (nat \<Rightarrow> int) \<Rightarrow> nat \<Rightarrow>
   Device list \<Rightarrow> (string \<rightharpoonup> bool) \<Rightarrow> (string \<rightharpoonup> bool)" where
  "status_loop latest clock i [] statuses = statuses"
| "status_loop latest clock i (device # rest) statuses =
     status_loop latest clock (Suc i) rest
       (assign_property statuses (Device.device_id device)
          (probe_status (clock i) device (latest i (Device.device_id device))))"

text \<open>
  \<open>fetchDeviceData(deviceId, showLoading)\<close> in two parts: what runs before the request is
  awaited, and what runs when its outcome \<open>response\<close> is known.
\<close>

definition fetchDeviceData_begin :: "bool \<Rightarrow> dashboard_state \<Rightarrow> dashboard_state" where
  "fetchDeviceData_begin showLoading st =
     (let st1 = (if showLoading then st\<lparr>dataLoading := True\<rparr> else st)
      in st1\<lparr>dashboard_state.error := ''''\<rparr>)"

definition fetchDeviceData_settle ::
  "dashboard_state \<Rightarrow> int \<Rightarrow> string \<Rightarrow> bool \<Rightarrow> DeviceData option fetch_result \<Rightarrow>
   dashboard_state \<Rightarrow> dashboard_state" where
  "fetchDeviceData_settle c now_ms deviceId showLoading response st =
     (let failed = (\<lambda>msg. st\<lparr>deviceData := None, dashboard_state.error := msg\<rparr>);
          st1 =
            (case response of
               FetchThrows \<Rightarrow> failed ''Network error''
             | Response status body \<Rightarrow>
                 if ok status then
                   (case body of
                      JsonThrows \<Rightarrow> failed ''Network error''
                    | JsonValue data \<Rightarrow>
                        (let st2 = st\<lparr>deviceData := data\<rparr> in
                         case find (\<lambda>d. Device.device_id d = deviceId)
                                (dashboard_state.devices c) of
                           None \<Rightarrow> st2
                         | Some device \<Rightarrow>
                             st2\<lparr>deviceStatuses :=
                               (deviceStatuses st2)(deviceId \<mapsto>
                                  isDeviceOnline now_ms device data)\<rparr>))
                 else if status = 404 then
                   (failed ''No data available for this device'')
                     \<lparr>deviceStatuses := (deviceStatuses st)(deviceId \<mapsto> False)\<rparr>
                 else failed ''Failed to fetch device data'')
      in if showLoading then st1\<lparr>dataLoading := False\<rparr> else st1)"

definition fetchDeviceData ::
  "dashboard_state \<Rightarrow> int \<Rightarrow> string \<Rightarrow> bool \<Rightarrow> DeviceData option fetch_result \<Rightarrow>
   dashboard_state \<Rightarrow> dashboard_state" where
  "fetchDeviceData c now_ms deviceId showLoading response st =
     (if deviceId = '''' then st
      else fetchDeviceData_settle c now_ms deviceId showLoading response
             (fetchDeviceData_begin showLoading st))"

text \<open>
  \<open>fetchDevices()\<close>. \<open>deviceParam\<close> is \<open>searchParams.get("device")\<close> and \<open>response\<close> the
  outcome of the device-list request. The second component of the result is the device for
  which \<open>fetchDeviceData\<close> was called and not awaited: its first part has run, its request
  is in flight, and \<open>fetchDeviceData_settle\<close> runs later.
\<close>

definition fetchDevices ::
  "dashboard_state \<Rightarrow> string option \<Rightarrow> Device list fetch_result \<Rightarrow>
   (nat \<Rightarrow> string \<Rightarrow> DeviceData option fetch_result) \<Rightarrow> (nat \<Rightarrow> int) \<Rightarrow>
   dashboard_state \<Rightarrow> dashboard_state \<times> string option" where
  "fetchDevices c deviceParam response latest clock st =
     (let network_error = (st\<lparr>dashboard_state.error := ''Network error''\<rparr>, None);
          (st1, started) =
            (case response of
               FetchThrows \<Rightarrow> network_error
             | Response status body \<Rightarrow>
                 if ok status then
                   (case body of
                      JsonThrows \<Rightarrow> network_error
                    | JsonValue data \<Rightarrow>
                        (let st2 = st\<lparr>dashboard_state.devices := data\<rparr>;
                             statuses = status_loop latest clock 0 data Map.empty;
                             st3 = st2\<lparr>deviceStatuses := statuses\<rparr>
                         in if dashboard_state.selectedDevice c = ''''
                               \<and> (deviceParam = None \<or> deviceParam = Some '''')
                               \<and> length data > 0
                            then
                              (case data of
                                 [] \<Rightarrow> (st3, None)
                               | first # others \<Rightarrow>
                                   (let st4 = st3\<lparr>dashboard_state.selectedDevice :=
                                                    Device.device_id first\<rparr>
                                    in if Device.device_id first = '''' then (st4, None)
                                       else (fetchDeviceData_begin True st4,
                                             Some (Device.device_id first))))
                            else (st3, None)))
                 else (st\<lparr>dashboard_state.error := ''Failed to fetch devices''\<rparr>, None))
      in (st1\<lparr>dashboard_state.loading := False\<rparr>, started))"

section \<open>Analytics: state and the range query\<close>

text \<open>
  The \<open>useState\<close> variables of \<open>AnalyticsPage\<close>. A \<open>Date\<close> is its time value, the
  milliseconds since the epoch; \<open>None\<close> is \<open>undefined\<close>.
\<close>

record analytics_state =
  devices :: "Device list"
  selectedDevice :: string
  rangeData :: "RangeData list"
  loading :: bool
  dataLoading :: bool
  error :: string
  startDate :: "int option"
  endDate :: "int option"
  autoRefresh :: bool

definition analytics_initial :: analytics_state where
  "analytics_initial =
     \<lparr>devices = [], selectedDevice = '''', rangeData = [], loading = True,
      dataLoading = False, error = '''', startDate = None, endDate = None,
      autoRefresh = False\<rparr>"

text \<open>The three parameters of the URL of \<open>GET /data/range\<close>.\<close>

record range_request =
  req_device_id :: string
  from_ts :: number
  to_ts :: number

text \<open>
  The request of \<open>fetchRangeData\<close>: both dates as whole seconds,
  \<open>Math.floor(date.getTime() / 1000)\<close>.
\<close>

definition range_request_of :: "string \<Rightarrow> int \<Rightarrow> int \<Rightarrow> range_request" where
  "range_request_of device from_date to_date =
     (let startTimestamp = Math_floor (js_div (Finite (of_int from_date)) (Finite 1000));
          endTimestamp = Math_floor (js_div (Finite (of_int to_date)) (Finite 1000))
      in \<lparr>req_device_id = device, from_ts = startTimestamp, to_ts = endTimestamp\<rparr>)"

text \<open>\<open>fetchRangeData()\<close>; \<open>net\<close> gives the outcome of the request sent.\<close>

definition fetchRangeData ::
  "analytics_state \<Rightarrow> (range_request \<Rightarrow> RangeData list fetch_result) \<Rightarrow>
   analytics_state \<Rightarrow> analytics_state" where
  "fetchRangeData c net st =
     (case (startDate c, endDate c) of
        (Some from_date, Some to_date) \<Rightarrow>
          if selectedDevice c = '''' then st
          else
            (let st1 = st\<lparr>dataLoading := True, error := ''''\<rparr>;
                 response = net (range_request_of (selectedDevice c) from_date to_date);
                 st2 =
                   (case response of
                      FetchThrows \<Rightarrow> st1\<lparr>error := ''Network error''\<rparr>
                    | Response status body \<Rightarrow>
                        if ok status then
                          (case body of
                             JsonThrows \<Rightarrow> st1\<lparr>error := ''Network error''\<rparr>
                           | JsonValue data \<Rightarrow> st1\<lparr>rangeData := data\<rparr>)
                        else st1\<lparr>error := ''Failed to fetch range data''\<rparr>)
             in st2\<lparr>dataLoading := False\<rparr>)
      | _ \<Rightarrow> st)"

section \<open>Analytics: the statistics of a chart card\<close>

text \<open>
  \<open>Number.prototype.toString\<close>: the decimal digits of a finite double are the shortest
  that read back as the same double, which the reals do not determine; they are the
  parameter \<open>shortest\<close>.
\<close>

definition Number_toString :: "(real \<Rightarrow> string) \<Rightarrow> number \<Rightarrow> string" where
  "Number_toString shortest x =
     (case x of
        NaN \<Rightarrow> ''NaN''
      | NegInfinity \<Rightarrow> ''-Infinity''
      | Finite r \<Rightarrow> shortest r
      | Infinity \<Rightarrow> ''Infinity'')"

text \<open>The decimal digits of a natural number.\<close>

fun decimal :: "nat \<Rightarrow> string" where
  "decimal n =
     (if n < 10 then [''0123456789'' ! n]
      else decimal (n div 10) @ [''0123456789'' ! (n mod 10)])"

text \<open>
  \<open>Number.prototype.toFixed(f)\<close> for \<open>0 \<le> f \<le> 100\<close>: the integer \<open>n\<close> nearest to
  \<open>x * 10^f\<close>, the larger one of two, written with \<open>f\<close> digits after the point.
\<close>

definition toFixed :: "(real \<Rightarrow> string) \<Rightarrow> nat \<Rightarrow> number \<Rightarrow> string" where
  "toFixed shortest f x =
     (case x of
        Finite r \<Rightarrow>
          (let s = (if r < 0 then ''-'' else '''');
               a = \<bar>r\<bar>
           in if 10 ^ 21 \<le> a then s @ shortest a
              else
                (let n = nat \<lfloor>a * 10 ^ f + 1 / 2\<rfloor>;
                     m = decimal n;
                     m0 = (if f \<noteq> 0 \<and> length m \<le> f
                           then replicate (f + 1 - length m) (CHR ''0'') @ m else m);
                     k = length m0
                 in if f \<noteq> 0 then s @ take (k - f) m0 @ ''.'' @ drop (k - f) m0
                    else s @ m0))
      | _ \<Rightarrow> Number_toString shortest x)"

text \<open>The \<open>dataKey\<close> of each entry of \<open>chartConfigs\<close>, in order.\<close>

definition dataKeys :: "string list" where
  "dataKeys = [''temperature'', ''humidity'', ''pressure'', ''co'', ''co2'', ''methane'',
               ''lpg'', ''pm25'', ''pm10'', ''noise'', ''light'']"

text \<open>
  \<open>d[config.dataKey]\<close> read as a number; a key that is no sensor field gives \<open>undefined\<close>,
  which arithmetic reads as \<open>NaN\<close>.
\<close>

definition metric_value :: "string \<Rightarrow> RangeData \<Rightarrow> number" where
  "metric_value key d =
     (if key = ''temperature'' then temperature d
      else if key = ''humidity'' then humidity d
      else if key = ''pressure'' then pressure d
      else if key = ''co'' then co d
      else if key = ''co2'' then co2 d
      else if key = ''methane'' then methane d
      else if key = ''lpg'' then lpg d
      else if key = ''pm25'' then pm25 d
      else if key = ''pm10'' then pm10 d
      else if key = ''noise'' then noise d
      else if key = ''light'' then light d
      else NaN)"

text \<open>
  \<open>values.reduce((a, b) => a + b, 0) / values.length\<close>: every addition and the division
  round to the nearest double.
\<close>

definition avgValue :: "number list \<Rightarrow> number" where
  "avgValue values =
     double_div (foldl double_add (Finite 0) values) (Finite (real (length values)))"

definition minValue :: "nat \<Rightarrow> number list \<Rightarrow> js_error + number" where
  "minValue max_args values = Math_min max_args values"

definition maxValue :: "nat \<Rightarrow> number list \<Rightarrow> js_error + number" where
  "maxValue max_args values = Math_max max_args values"

text \<open>
  The three figures under a chart, as displayed; an exception of \<open>Math.min\<close> or
  \<open>Math.max\<close> ends the rendering. The grid of charts is rendered only when
  \<open>rangeData.length > 0\<close>.
\<close>

record statistics =
  shown_min :: string
  shown_avg :: string
  shown_max :: string

definition chart_statistics ::
  "nat \<Rightarrow> (real \<Rightarrow> string) \<Rightarrow> RangeData list \<Rightarrow> string \<Rightarrow> js_error + statistics" where
  "chart_statistics max_args shortest readings key =
     (let values = map (metric_value key) readings;
          avg = avgValue values
      in case minValue max_args values of
           Inl e \<Rightarrow> Inl e
         | Inr lowest \<Rightarrow>
             (case maxValue max_args values of
                Inl e \<Rightarrow> Inl e
              | Inr highest \<Rightarrow>
                  Inr \<lparr>shown_min = toFixed shortest 1 lowest,
                       shown_avg = toFixed shortest 1 avg,
                       shown_max = toFixed shortest 1 highest\<rparr>))"

text \<open>\<open>chartConfigs.map(...)\<close>: the first card that throws ends the rendering.\<close>

fun chart_cards ::
  "nat \<Rightarrow> (real \<Rightarrow> string) \<Rightarrow> RangeData list \<Rightarrow> string list \<Rightarrow>
   js_error + (string \<times> statistics) list" where
  "chart_cards max_args shortest readings [] = Inr []"
| "chart_cards max_args shortest readings (key # keys) =
     (case chart_statistics max_args shortest readings key of
        Inl e \<Rightarrow> Inl e
      | Inr shown \<Rightarrow>
          (case chart_cards max_args shortest readings keys of
             Inl e \<Rightarrow> Inl e
           | Inr cards \<Rightarrow> Inr ((key, shown) # cards)))"

definition charts_grid ::
  "nat \<Rightarrow> (real \<Rightarrow> string) \<Rightarrow> RangeData list \<Rightarrow>
   js_error + (string \<times> statistics) list option" where
  "charts_grid max_args shortest readings =
     (if length readings > 0
      then (case chart_cards max_args shortest readings dataKeys of
              Inl e \<Rightarrow> Inl e
            | Inr cards \<Rightarrow> Inr (Some cards))
      else Inr None)"

text \<open>
  The arithmetic mean of a list of reals, the sum divided by the count, as the
  specification words the average.
\<close>

definition arithmetic_mean :: "real list \<Rightarrow> real" where
  "arithmetic_mean vs = sum_list vs / real (length vs)"

text \<open>
  The mean in double arithmetic, told on the reals: the values are added to 0 from left to
  right, every sum rounded to the nearest double, and the last sum is divided by the count
  and rounded; a sum that has become infinite stays so.
\<close>

fun double_sum :: "real \<Rightarrow> real list \<Rightarrow> number" where
  "double_sum s [] = Finite s"
| "double_sum s (v # vs) =
     (case to_double (s + v) of Finite s' \<Rightarrow> double_sum s' vs | overflow \<Rightarrow> overflow)"

definition double_mean :: "real list \<Rightarrow> number" where
  "double_mean vs =
     (case double_sum 0 vs of
        Finite s \<Rightarrow> to_double (s / real (length vs))
      | overflow \<Rightarrow> overflow)"

section \<open>Analytics: the CSV export\<close>

text \<open>
  \<open>new Date(v).toISOString()\<close>: the time value is clipped to \<open>NaN\<close> when \<open>v\<close> is not finite
  or beyond 8.64e15 in magnitude, and \<open>toISOString\<close> throws a \<open>RangeError\<close> on \<open>NaN\<close>.
  The text of a valid time value is the parameter \<open>iso_text\<close>.
\<close>

definition Date_toISOString :: "(int \<Rightarrow> string) \<Rightarrow> number \<Rightarrow> js_error + string" where
  "Date_toISOString iso_text v =
     (case v of
        Finite r \<Rightarrow>
          if \<bar>r\<bar> \<le> 8640000000000000
          then Inr (iso_text (if 0 \<le> r then \<lfloor>r\<rfloor> else \<lceil>r\<rceil>))
          else Inl RangeError
      | _ \<Rightarrow> Inl RangeError)"

definition csv_header :: string where
  "csv_header = ''Timestamp,Temperature,Humidity,Pressure,CO,Methane,LPG,PM2.5,PM10,Noise,Light''"

text \<open>The template literal of one row.\<close>

definition csv_row :: "(int \<Rightarrow> string) \<Rightarrow> (real \<Rightarrow> string) \<Rightarrow> RangeData \<Rightarrow> js_error + string" where
  "csv_row iso_text shortest row =
     (case Date_toISOString iso_text (js_mul (parseInt (recorded_at row)) (Finite 1000)) of
        Inl e \<Rightarrow> Inl e
      | Inr timestamp \<Rightarrow>
          Inr (timestamp @ '','' @ Number_toString shortest (temperature row)
               @ '','' @ Number_toString shortest (humidity row)
               @ '','' @ Number_toString shortest (pressure row)
               @ '','' @ Number_toString shortest (co row)
               @ '','' @ Number_toString shortest (methane row)
               @ '','' @ Number_toString shortest (lpg row)
               @ '','' @ Number_toString shortest (pm25 row)
               @ '','' @ Number_toString shortest (pm10 row)
               @ '','' @ Number_toString shortest (noise row)
               @ '','' @ Number_toString shortest (light row)))"

text \<open>\<open>rangeData.map(...)\<close>: the first row that throws ends the export.\<close>

fun csv_rows :: "(int \<Rightarrow> string) \<Rightarrow> (real \<Rightarrow> string) \<Rightarrow> RangeData list \<Rightarrow> js_error + string list" where
  "csv_rows iso_text shortest [] = Inr []"
| "csv_rows iso_text shortest (row # rest) =
     (case csv_row iso_text shortest row of
        Inl e \<Rightarrow> Inl e
      | Inr line \<Rightarrow>
          (case csv_rows iso_text shortest rest of
             Inl e \<Rightarrow> Inl e
           | Inr lines \<Rightarrow> Inr (line # lines)))"

text \<open>\<open>Array.prototype.join\<close>.\<close>

fun join :: "string \<Rightarrow> string list \<Rightarrow> string" where
  "join sep [] = ''''"
| "join sep [x] = x"
| "join sep (x # y # zs) = x @ sep @ join sep (y # zs)"

record download =
  filename :: string
  mime :: string
  content :: string

datatype export_outcome = NoFile | Thrown js_error | Downloaded download

text \<open>
  \<open>exportData()\<close>. It calls no state setter, so the state it returns is the one it got.
  \<open>format_day\<close> is \<open>format(date, "yyyy-MM-dd")\<close> of the date library, which may throw.
\<close>

definition exportData ::
  "(int \<Rightarrow> string) \<Rightarrow> (real \<Rightarrow> string) \<Rightarrow> (int option \<Rightarrow> js_error + string) \<Rightarrow>
   analytics_state \<Rightarrow> analytics_state \<Rightarrow> analytics_state \<times> export_outcome" where
  "exportData iso_text shortest format_day c st =
     (if length (rangeData c) = 0 then (st, NoFile)
      else
        (case csv_rows iso_text shortest (rangeData c) of
           Inl e \<Rightarrow> (st, Thrown e)
         | Inr lines \<Rightarrow>
             (let csvContent = join [CHR 0x0A] (csv_header # lines) in
              case format_day (startDate c) of
                Inl e \<Rightarrow> (st, Thrown e)
              | Inr from_day \<Rightarrow>
                  (case format_day (endDate c) of
                     Inl e \<Rightarrow> (st, Thrown e)
                   | Inr to_day \<Rightarrow>
                       (st, Downloaded
                          \<lparr>filename = ''environmental_data_'' @ selectedDevice c @ ''_''
                                        @ from_day @ ''_to_'' @ to_day @ ''.csv'',
                           mime = ''text/csv'',
                           content = csvContent\<rparr>)))))"

section \<open>Sample data\<close>

text \<open>A device, a reading and the outcomes of a refresh cycle, used to run the operations.\<close>

definition sample_device :: "string \<Rightarrow> Device" where
  "sample_device d =
     \<lparr>Device.device_id = d, device_name = ''Sensor'', device_imei = ''356938035643809'',
      is_active = True, user_id = ''u1'', createdAt = ''2024-01-01T00:00:00.000Z'',
      updatedAt = ''2024-01-01T00:00:00.000Z''\<rparr>"

definition sample_reading :: "string \<Rightarrow> string \<Rightarrow> number \<Rightarrow> DeviceData" where
  "sample_reading d ts t =
     \<lparr>id_field = ''r1'', DeviceData.device_id = d, temperature = t, humidity = Finite 45,
      pressure = Finite 1013, co = Finite 1, co2 = Finite 400, methane = Finite 0,
      lpg = Finite 0, pm25 = Finite 12, pm10 = Finite 20, noise = Finite 40,
      light = Finite 300, recorded_at = ts\<rparr>"

text \<open>
  A cycle at time 1700000000000 ms in which the first latest-reading request throws and
  every other one answers 200 with a reading recorded at second 1700000000.
\<close>

definition sample_latest :: "nat \<Rightarrow> string \<Rightarrow> DeviceData option fetch_result" where
  "sample_latest i d =
     (if i = 0 then FetchThrows
      else Response 200 (JsonValue (Some (sample_reading d ''1700000000'' (Finite 21)))))"

definition sample_clock :: "nat \<Rightarrow> int" where
  "sample_clock i = 1700000000000"

text \<open>
  A dashboard that lists the devices \<open>d1\<close> and \<open>d2\<close>, both online, with \<open>d1\<close> selected.
\<close>

definition sample_statuses :: "string \<rightharpoonup> bool" where
  "sample_statuses = [''d1'' \<mapsto> True, ''d2'' \<mapsto> True]"

definition sample_dashboard :: dashboard_state where
  "sample_dashboard =
     dashboard_initial
       \<lparr>dashboard_state.devices := [sample_device ''d1'', sample_device ''d2''],
        dashboard_state.selectedDevice := ''d1'',
        dashboard_state.loading := False,
        deviceStatuses := sample_statuses\<rparr>"

text \<open>
  The digits of an integer below \<open>10^21\<close>, as \<open>Number.prototype.toString\<close> writes them;
  the sample values are such integers.
\<close>

definition sample_shortest :: "real \<Rightarrow> string" where
  "sample_shortest r = (if r < 0 then ''-'' else '''') @ decimal (nat \<lfloor>\<bar>r\<bar>\<rfloor>)"

text \<open>The text of a time value as its number of milliseconds, enough to tell rows apart.\<close>

definition sample_iso_text :: "int \<Rightarrow> string" where
  "sample_iso_text t = ''T'' @ (if t < 0 then ''-'' else '''') @ decimal (nat \<bar>t\<bar>)"

definition sample_format_day :: "int option \<Rightarrow> js_error + string" where
  "sample_format_day d = (case d of None \<Rightarrow> Inl RangeError | Some t \<Rightarrow> Inr (sample_iso_text t))"

text \<open>Three readings of \<open>d1\<close> with the temperatures 20, 22 and 24.\<close>

definition sample_range :: "RangeData list" where
  "sample_range =
     [sample_reading ''d1'' ''1700000000'' (Finite 20),
      sample_reading ''d1'' ''1700000060'' (Finite 22),
      sample_reading ''d1'' ''1700000120'' (Finite 24)]"

definition sample_analytics :: analytics_state where
  "sample_analytics =
     analytics_initial
       \<lparr>devices := [sample_device ''d1''], selectedDevice := ''d1'', loading := False,
        rangeData := sample_range,
        startDate := Some 1700000000000, endDate := Some 1700000200000\<rparr>"

text \<open>A range request that is answered with status 500.\<close>

definition sample_net :: "range_request \<Rightarrow> RangeData list fetch_result" where
  "sample_net req = Response 500 JsonThrows"

text \<open>The file that exporting \<open>sample_analytics\<close> with the sample formatters downloads.\<close>

definition sample_file :: download where
  "sample_file =
     \<lparr>filename = ''environmental_data_d1_T1700000000000_to_T1700000200000.csv'',
      mime = ''text/csv'',
      content =
        ''Timestamp,Temperature,Humidity,Pressure,CO,Methane,LPG,PM2.5,PM10,Noise,Light''
        @ [CHR 0x0A] @ ''T1700000000000,20,45,1013,1,0,0,12,20,40,300''
        @ [CHR 0x0A] @ ''T1700000060000,22,45,1013,1,0,0,12,20,40,300''
        @ [CHR 0x0A] @ ''T1700000120000,24,45,1013,1,0,0,12,20,40,300''\<rparr>"

text \<open>An engine that accepts 65535 arguments in one call.\<close>

definition sample_max_args :: nat where
  "sample_max_args = 65535"

text \<open>Two readings whose temperatures are the doubles nearest to 18.1 and 18.2.\<close>

definition sample_close :: "RangeData list" where
  "sample_close =
     [sample_reading ''d1'' ''1700000000'' (Finite (2547348539231437 / 140737488355328)),
      sample_reading ''d1'' ''1700000060'' (Finite (5122844576133939 / 281474976710656))]"

section \<open>Properties of the online-status evaluator\<close>

lemmas parseInt_eval =
  parseInt_def strip_sign_def strip_prefix_def radixDigit_def digitValue_def mathInt_def
  isWhiteSpace_def

lemma parseInt_cases: "parseInt s = NaN \<or> (\<exists>n::int. parseInt s = Finite (of_int n))"
  unfolding parseInt_def Let_def
  by (auto split: prod.splits simp del: of_int_mult of_int_of_nat_eq)

lemma elapsed_le_int:
  "(real_of_int now - real_of_int n * 1000 \<le> 20000) = (now - n * 1000 \<le> 20000)"
proof -
  have "(real_of_int (now - n * 1000) \<le> real_of_int 20000) = (now - n * 1000 \<le> 20000)"
    by (rule of_int_le_iff)
  then show ?thesis by simp
qed

lemma isDeviceOnline_NaN:
  "parseInt (recorded_at R) = NaN \<Longrightarrow> \<not> isDeviceOnline now device (Some R)"
  by (simp add: isDeviceOnline_def js_le_def js_sub_def)

lemma isDeviceOnline_Finite:
  "parseInt (recorded_at R) = Finite (of_int n) \<Longrightarrow>
   isDeviceOnline now device (Some R) = (now - n * 1000 \<le> 20000)"
  by (simp add: isDeviceOnline_def js_le_def js_sub_def not_less elapsed_le_int)

lemma sample_parse: "parseInt ''1700000000'' = Finite 1700000000"
  by (simp add: parseInt_eval)

text \<open>
  C1. At wall-clock time \<open>now\<close> (milliseconds), \<open>isDeviceOnline\<close> returns false when no
  latest reading is supplied. For a reading \<open>R\<close> it returns true exactly when
  \<open>recorded_at\<close> parses to an integer \<open>t\<close> with \<open>now - t * 1000 \<le> 20000\<close>. In particular a
  reading whose timestamp lies in the future, where the elapsed value is negative, is
  reported online.
\<close>

theorem isDeviceOnline_threshold:
  "isDeviceOnline now device None = False
   \<and> (isDeviceOnline now device (Some R) \<longleftrightarrow>
        (\<exists>t::int. parseInt (recorded_at R) = Finite (of_int t) \<and> now - t * 1000 \<le> 20000))
   \<and> (\<forall>t::int. parseInt (recorded_at R) = Finite (of_int t) \<and> now < t * 1000
          \<longrightarrow> isDeviceOnline now device (Some R))"
proof (intro conjI allI impI)
  show "isDeviceOnline now device None = False"
    by (simp add: isDeviceOnline_def)
next
  consider "parseInt (recorded_at R) = NaN"
    | n :: int where "parseInt (recorded_at R) = Finite (of_int n)"
    using parseInt_cases by blast
  then show "isDeviceOnline now device (Some R) \<longleftrightarrow>
        (\<exists>t::int. parseInt (recorded_at R) = Finite (of_int t) \<and> now - t * 1000 \<le> 20000)"
  proof cases
    case 1
    then show ?thesis using isDeviceOnline_NaN by simp
  next
    case 2
    then show ?thesis using isDeviceOnline_Finite [OF 2] by simp
  qed
next
  fix t :: int
  assume "parseInt (recorded_at R) = Finite (of_int t) \<and> now < t * 1000"
  then show "isDeviceOnline now device (Some R)"
    using isDeviceOnline_Finite [of R t now device] by simp
qed

theorem isDeviceOnline_threshold_witness:
  "parseInt (recorded_at (sample_reading ''d1'' ''1700000000'' (Finite 21)))
     = Finite (of_int 1700000000)
   \<and> (1699999990000::int) < 1700000000 * 1000
   \<and> isDeviceOnline 1699999990000 (sample_device ''d1'')
        (Some (sample_reading ''d1'' ''1700000000'' (Finite 21)))"
  using isDeviceOnline_threshold [of 1699999990000 "sample_device ''d1''"
          "sample_reading ''d1'' ''1700000000'' (Finite 21)"]
  by (simp add: sample_reading_def sample_parse)

text \<open>
  C10. \<open>isDeviceOnline\<close> returns a truth value for every reading. \<open>parseInt\<close> yields
  \<open>NaN\<close> or an integer, and \<open>NaN\<close> exactly when no digit follows the white space, sign and
  radix prefix. \<open>NaN\<close> goes through the multiplication and the subtraction, every comparison
  with \<open>NaN\<close> is false, and so a reading whose \<open>recorded_at\<close> does not parse is reported
  offline.
\<close>

theorem isDeviceOnline_unparsable_offline:
  "(parseInt s = NaN \<or> (\<exists>n::int. parseInt s = Finite (of_int n)))
   \<and> (parseInt s = NaN \<longleftrightarrow>
        digits_prefix (fst (strip_prefix (snd (strip_sign (dropWhile isWhiteSpace s)))))
          (snd (strip_prefix (snd (strip_sign (dropWhile isWhiteSpace s))))) = [])
   \<and> js_mul NaN (Finite 1000) = NaN
   \<and> js_sub x NaN = NaN
   \<and> \<not> js_le NaN y \<and> \<not> js_lt NaN y \<and> \<not> js_lt y NaN \<and> \<not> js_le y NaN
   \<and> (parseInt (recorded_at R) = NaN \<longrightarrow> isDeviceOnline now device (Some R) = False)"
proof -
  have "js_sub x NaN = NaN" by (cases x) (simp_all add: js_sub_def)
  moreover have "\<not> js_lt y NaN" by (cases y) simp_all
  moreover have "parseInt s = NaN \<longleftrightarrow>
        digits_prefix (fst (strip_prefix (snd (strip_sign (dropWhile isWhiteSpace s)))))
          (snd (strip_prefix (snd (strip_sign (dropWhile isWhiteSpace s))))) = []"
    by (simp add: parseInt_def Let_def split: prod.splits)
  ultimately show ?thesis
    using parseInt_cases [of s] isDeviceOnline_NaN [of R now device]
    by (simp add: js_le_def)
qed

theorem isDeviceOnline_unparsable_offline_witness:
  "parseInt (recorded_at (sample_reading ''d1'' ''not-a-time'' (Finite 21))) = NaN
   \<and> isDeviceOnline 1700000000000 (sample_device ''d1'')
        (Some (sample_reading ''d1'' ''not-a-time'' (Finite 21))) = False"
proof -
  have p: "parseInt (recorded_at (sample_reading ''d1'' ''not-a-time'' (Finite 21))) = NaN"
    by (simp add: sample_reading_def parseInt_eval)
  show ?thesis
    using p isDeviceOnline_unparsable_offline [of "''''" "NaN" "NaN"
            "sample_reading ''d1'' ''not-a-time'' (Finite 21)" 1700000000000
            "sample_device ''d1''"]
    by simp
qed

section \<open>Properties of the colour classification\<close>

text \<open>
  C7. The colour is a function of the metric type and the value alone. A temperature below 18
  or above 26 is red (alert), one from 18 to 26 is green (safe); CO above 3 is red; PM2.5 above
  300 is red and above 150 up to 300 yellow (warning); every type other than
  \<open>temperature\<close>, \<open>humidity\<close>, \<open>co\<close> and \<open>pm25\<close>, the types with thresholds, is gray
  (neutral) whatever the value.
\<close>

theorem getStatusColor_thresholds:
  "getStatusColor (Finite x) ''temperature'' =
     (if x < 18 \<or> 26 < x then ''text-red-600'' else ''text-green-600'')
   \<and> (3 < x \<longrightarrow> getStatusColor (Finite x) ''co'' = ''text-red-600'')
   \<and> (300 < x \<longrightarrow> getStatusColor (Finite x) ''pm25'' = ''text-red-600'')
   \<and> (150 < x \<and> x \<le> 300 \<longrightarrow> getStatusColor (Finite x) ''pm25'' = ''text-yellow-600'')
   \<and> (type \<notin> {''temperature'', ''humidity'', ''co'', ''pm25''}
        \<longrightarrow> getStatusColor v type = ''text-gray-600'')"
  by (simp add: getStatusColor_def js_gt_def)

theorem getStatusColor_thresholds_witness:
  "getStatusColor (Finite 301) ''temperature'' = ''text-red-600''
   \<and> getStatusColor (Finite 301) ''co'' = ''text-red-600''
   \<and> getStatusColor (Finite 301) ''pm25'' = ''text-red-600''
   \<and> getStatusColor (Finite 200) ''pm25'' = ''text-yellow-600''
   \<and> getStatusColor (Finite 200) ''noise'' = ''text-gray-600''"
  using getStatusColor_thresholds [of 301 "''noise''" "Finite 200"]
        getStatusColor_thresholds [of 200 "''noise''" "Finite 200"]
  by simp

section \<open>Properties of the device-status refresh\<close>


text \<open>The loop leaves alone every key outside the list, and the key \<open>__proto__\<close>.\<close>

lemma status_loop_frame:
  "k \<notin> Device.device_id ` set L \<or> k = ''__proto__'' \<Longrightarrow>
   status_loop latest clock i L m k = m k"
  by (induction L arbitrary: i m) (auto simp: assign_property_def)

lemma dom_status_loop:
  "dom (status_loop latest clock i L m)
     = dom m \<union> (Device.device_id ` set L - {''__proto__''})"
  by (induction L arbitrary: i m) (auto simp: assign_property_def)



lemma fetchDevices_statuses:
  "ok status \<Longrightarrow>
   deviceStatuses (fst (fetchDevices c deviceParam (Response status (JsonValue L))
                          latest clock st))
     = status_loop latest clock 0 L Map.empty"
  by (simp add: fetchDevices_def fetchDeviceData_begin_def Let_def split: list.splits)

text \<open>A device whose identifier is \<open>__proto__\<close> gets no entry.\<close>

lemma fetchDevices_proto_device:
  "deviceStatuses (fst (fetchDevices dashboard_initial None
      (Response 200 (JsonValue [sample_device ''__proto__''])) sample_latest sample_clock
      dashboard_initial)) = Map.empty"
proof -
  have okk: "ok 200" by (simp add: ok_def)
  show ?thesis
    by (simp add: fetchDevices_statuses [OF okk] sample_device_def assign_property_def)
qed



section \<open>Properties of the latest-reading fetch\<close>

lemma fetchDeviceData_frame:
  "k \<noteq> deviceId \<Longrightarrow>
   deviceStatuses (fetchDeviceData_settle c now deviceId showLoading r st) k
     = deviceStatuses st k"
  by (simp add: fetchDeviceData_settle_def Let_def
           split: fetch_result.splits json_result.splits option.splits)

lemma fetchDeviceData_begin_statuses:
  "deviceStatuses (fetchDeviceData_begin showLoading st) = deviceStatuses st"
  by (simp add: fetchDeviceData_begin_def)

text \<open>
  C3. When the latest-reading request of \<open>fetchDeviceData\<close> is answered with status 404,
  the stored reading becomes none, the error message becomes exactly
  \<open>No data available for this device\<close>, and the status-map entry of that device becomes
  false. Every other failure sets one of the two generic messages, which differ from it.
\<close>

theorem fetchDeviceData_not_found:
  "deviceId \<noteq> '''' \<Longrightarrow>
     deviceData (fetchDeviceData c now deviceId showLoading (Response 404 body) st) = None
   \<and> dashboard_state.error (fetchDeviceData c now deviceId showLoading (Response 404 body) st)
       = ''No data available for this device''
   \<and> deviceStatuses (fetchDeviceData c now deviceId showLoading (Response 404 body) st) deviceId
       = Some False
   \<and> (request_failed r \<and> (\<forall>b. r \<noteq> Response 404 b) \<longrightarrow>
         dashboard_state.error (fetchDeviceData c now deviceId showLoading r st)
           \<in> {''Failed to fetch device data'', ''Network error''})
   \<and> ''No data available for this device''
        \<notin> {''Failed to fetch device data'', ''Network error''}"
  by (auto simp: fetchDeviceData_def fetchDeviceData_settle_def fetchDeviceData_begin_def
        request_failed_def ok_def Let_def split: fetch_result.splits json_result.splits)

theorem fetchDeviceData_not_found_witness:
  "''d1'' \<noteq> ''''
   \<and> deviceData (fetchDeviceData sample_dashboard 1700000000000 ''d1'' True
        (Response 404 JsonThrows) sample_dashboard) = None
   \<and> dashboard_state.error (fetchDeviceData sample_dashboard 1700000000000 ''d1'' True
        (Response 404 JsonThrows) sample_dashboard) = ''No data available for this device''
   \<and> deviceStatuses (fetchDeviceData sample_dashboard 1700000000000 ''d1'' True
        (Response 404 JsonThrows) sample_dashboard) ''d1'' = Some False
   \<and> request_failed (Response 500 (JsonThrows :: DeviceData option json_result))
   \<and> dashboard_state.error (fetchDeviceData sample_dashboard 1700000000000 ''d1'' True
        (Response 500 JsonThrows) sample_dashboard) = ''Failed to fetch device data''"
proof -
  have n: "''d1'' \<noteq> ''''" by simp
  have f: "request_failed (Response 500 (JsonThrows :: DeviceData option json_result))"
    by (simp add: request_failed_def ok_def)
  have e: "dashboard_state.error (fetchDeviceData sample_dashboard 1700000000000 ''d1'' True
        (Response 500 JsonThrows) sample_dashboard) = ''Failed to fetch device data''"
    by (simp add: fetchDeviceData_def fetchDeviceData_settle_def fetchDeviceData_begin_def
          ok_def)
  show ?thesis
    using n f e
      fetchDeviceData_not_found [OF n, of sample_dashboard 1700000000000 True JsonThrows
        sample_dashboard "Response 500 JsonThrows"]
    by simp
qed

section \<open>How the refresh paths update the status map\<close>

text \<open>
  C4, as stated, fails: \<open>fetchDevices\<close> builds a fresh map and stores it in place of the
  old one. In a dashboard that shows \<open>d1\<close> and \<open>d2\<close> online, a refresh whose device list
  holds \<open>d1\<close> only does not touch \<open>d2\<close>, and the entry of \<open>d2\<close> is gone afterwards.
\<close>

theorem fetchDevices_drops_entries:
  "''d2'' \<notin> Device.device_id ` set [sample_device ''d1'']
   \<and> deviceStatuses sample_dashboard ''d2'' = Some True
   \<and> deviceStatuses (fst (fetchDevices sample_dashboard None
        (Response 200 (JsonValue [sample_device ''d1''])) sample_latest sample_clock
        sample_dashboard)) ''d2'' = None"
proof -
  have okk: "ok 200" by (simp add: ok_def)
  show ?thesis
    by (simp add: fetchDevices_statuses [OF okk] sample_device_def sample_dashboard_def
          sample_statuses_def dashboard_initial_def assign_property_def)
qed

text \<open>
  C4, amended. An update of the status map by \<open>fetchDeviceData\<close> is a per-key merge: it
  writes at most the key of the fetched device and leaves the entry of every other
  identifier unchanged. \<open>fetchDevices\<close>, when the device-list request succeeds, replaces
  the map by a freshly built one, whatever the map held before: its keys are the
  identifiers of the fetched list (\<open>__proto__\<close> excepted, which an assignment to a plain
  object does not store), and it has no entry for any other identifier. When the
  device-list request fails, \<open>fetchDevices\<close> leaves the map unchanged.
\<close>

theorem status_map_updates:
  "(k \<noteq> deviceId \<longrightarrow>
      deviceStatuses (fetchDeviceData_settle c now deviceId showLoading r st) k
        = deviceStatuses st k
      \<and> deviceStatuses (fetchDeviceData c now deviceId showLoading r st) k
        = deviceStatuses st k)
   \<and> (ok status \<longrightarrow>
        deviceStatuses (fst (fetchDevices c deviceParam (Response status (JsonValue L))
                               latest clock st))
          = status_loop latest clock 0 L Map.empty
        \<and> dom (deviceStatuses (fst (fetchDevices c deviceParam (Response status (JsonValue L))
                                      latest clock st)))
          = Device.device_id ` set L - {''__proto__''}
        \<and> (k \<notin> Device.device_id ` set L \<longrightarrow>
             deviceStatuses (fst (fetchDevices c deviceParam (Response status (JsonValue L))
                                    latest clock st)) k = None))
   \<and> (request_failed r' \<longrightarrow>
        deviceStatuses (fst (fetchDevices c deviceParam r' latest clock st))
          = deviceStatuses st)"
proof (intro conjI impI)
  assume "k \<noteq> deviceId"
  then show "deviceStatuses (fetchDeviceData_settle c now deviceId showLoading r st) k
               = deviceStatuses st k"
    by (rule fetchDeviceData_frame)
next
  assume "k \<noteq> deviceId"
  then show "deviceStatuses (fetchDeviceData c now deviceId showLoading r st) k
               = deviceStatuses st k"
    by (simp add: fetchDeviceData_def fetchDeviceData_frame fetchDeviceData_begin_statuses)
next
  assume "ok status"
  then show "deviceStatuses (fst (fetchDevices c deviceParam (Response status (JsonValue L))
                               latest clock st))
          = status_loop latest clock 0 L Map.empty"
    by (rule fetchDevices_statuses)
next
  assume "ok status"
  then show "dom (deviceStatuses (fst (fetchDevices c deviceParam
                     (Response status (JsonValue L)) latest clock st)))
          = Device.device_id ` set L - {''__proto__''}"
    by (simp add: fetchDevices_statuses dom_status_loop)
next
  assume "ok status" and "k \<notin> Device.device_id ` set L"
  then show "deviceStatuses (fst (fetchDevices c deviceParam (Response status (JsonValue L))
                                    latest clock st)) k = None"
    by (simp add: fetchDevices_statuses status_loop_frame)
next
  assume "request_failed r'"
  then show "deviceStatuses (fst (fetchDevices c deviceParam r' latest clock st))
               = deviceStatuses st"
    by (auto simp: fetchDevices_def request_failed_def Let_def
             split: fetch_result.splits json_result.splits)
qed

theorem status_map_updates_witness:
  "''d2'' \<noteq> ''d1''
   \<and> deviceStatuses (fetchDeviceData sample_dashboard 1700000000000 ''d1'' True
        (Response 404 JsonThrows) sample_dashboard) ''d2'' = Some True
   \<and> ok 200
   \<and> ''d2'' \<notin> Device.device_id ` set [sample_device ''d1'']
   \<and> dom (deviceStatuses (fst (fetchDevices sample_dashboard None
        (Response 200 (JsonValue [sample_device ''d1''])) sample_latest sample_clock
        sample_dashboard))) = {''d1''}
   \<and> deviceStatuses (fst (fetchDevices sample_dashboard None
        (Response 200 (JsonValue [sample_device ''d1''])) sample_latest sample_clock
        sample_dashboard)) ''d2'' = None
   \<and> request_failed (Response 500 (JsonThrows :: Device list json_result))
   \<and> deviceStatuses (fst (fetchDevices sample_dashboard None
        (Response 500 JsonThrows) sample_latest sample_clock sample_dashboard)) ''d2''
       = Some True"
proof -
  have n: "''d2'' \<noteq> ''d1''" by simp
  have okk: "ok 200" by (simp add: ok_def)
  have f: "request_failed (Response 500 (JsonThrows :: Device list json_result))"
    by (simp add: request_failed_def ok_def)
  have s: "deviceStatuses sample_dashboard ''d2'' = Some True"
    by (simp add: sample_dashboard_def sample_statuses_def)
  show ?thesis
    using n okk f s
      status_map_updates [of "''d2''" "''d1''" sample_dashboard 1700000000000 True
        "Response 404 JsonThrows" sample_dashboard 200 None "[sample_device ''d1'']"
        sample_latest sample_clock "Response 500 JsonThrows"]
    by (simp add: sample_device_def assign_property_def)
qed

section \<open>Properties of the range query\<close>

text \<open>
  C5. When the range request of \<open>fetchRangeData\<close> fails, the previously loaded collection
  \<open>rangeData\<close> is left as it was, and a generic error message is set:
  \<open>Failed to fetch range data\<close> for a non-OK response, \<open>Network error\<close> for an exception.
\<close>

theorem fetchRangeData_failure_keeps_data:
  assumes "selectedDevice c \<noteq> ''''"
      and "startDate c = Some from_date" and "endDate c = Some to_date"
      and "request_failed (net (range_request_of (selectedDevice c) from_date to_date))"
  shows "rangeData (fetchRangeData c net st) = rangeData st
   \<and> error (fetchRangeData c net st) \<in> {''Failed to fetch range data'', ''Network error''}
   \<and> error (fetchRangeData c net st)
       = (if \<exists>status body. net (range_request_of (selectedDevice c) from_date to_date)
                              = Response status body \<and> \<not> ok status
          then ''Failed to fetch range data'' else ''Network error'')"
  using assms
  by (auto simp: fetchRangeData_def request_failed_def Let_def
           split: fetch_result.splits json_result.splits)

theorem fetchRangeData_failure_keeps_data_witness:
  "selectedDevice sample_analytics \<noteq> ''''
   \<and> startDate sample_analytics = Some 1700000000000
   \<and> endDate sample_analytics = Some 1700000200000
   \<and> request_failed (sample_net (range_request_of (selectedDevice sample_analytics)
                                     1700000000000 1700000200000))
   \<and> rangeData (fetchRangeData sample_analytics sample_net sample_analytics) = sample_range
   \<and> error (fetchRangeData sample_analytics sample_net sample_analytics)
       = ''Failed to fetch range data''"
proof -
  have 1: "selectedDevice sample_analytics \<noteq> ''''"
    by (simp add: sample_analytics_def)
  have 2: "startDate sample_analytics = Some 1700000000000"
    by (simp add: sample_analytics_def)
  have 3: "endDate sample_analytics = Some 1700000200000"
    by (simp add: sample_analytics_def)
  have 4: "request_failed (sample_net (range_request_of (selectedDevice sample_analytics)
                                     1700000000000 1700000200000))"
    by (simp add: sample_net_def request_failed_def ok_def)
  have 5: "rangeData sample_analytics = sample_range"
    by (simp add: sample_analytics_def)
  have 6: "\<exists>status body. sample_net (range_request_of (selectedDevice sample_analytics)
             1700000000000 1700000200000) = Response status body \<and> \<not> ok status"
    by (simp add: sample_net_def ok_def)
  show ?thesis
    using 1 2 3 4 5 6
      fetchRangeData_failure_keeps_data [of sample_analytics 1700000000000 1700000200000
        sample_net sample_analytics]
    by simp
qed

section \<open>Properties of the chart statistics\<close>

lemma Math_min_from_Finite:
  "Math_min_from (Finite a) (map Finite xs) = Finite (fold min xs a)"
  by (induction xs arbitrary: a) (auto simp: min_def)

lemma Math_max_from_Finite:
  "Math_max_from (Finite a) (map Finite xs) = Finite (fold max xs a)"
  by (induction xs arbitrary: a) (auto simp: max_def js_gt_def)

lemma Math_min_Finite:
  assumes "xs \<noteq> []" and "length xs \<le> max_args"
  shows "Math_min max_args (map Finite xs) = Inr (Finite (Min (set xs)))"
proof (cases xs)
  case Nil
  with assms show ?thesis by simp
next
  case (Cons a list)
  have "Math_min_from Infinity (map Finite (a # list)) = Finite (fold min list a)"
    by (simp add: Math_min_from_Finite)
  also have "fold min list a = Min (set (a # list))"
    by (rule Min.set_eq_fold [symmetric])
  finally have "Math_min_from Infinity (map Finite xs) = Finite (Min (set xs))"
    by (simp only: Cons)
  with assms(2) show ?thesis by (simp add: Math_min_def)
qed

lemma Math_max_Finite:
  assumes "xs \<noteq> []" and "length xs \<le> max_args"
  shows "Math_max max_args (map Finite xs) = Inr (Finite (Max (set xs)))"
proof (cases xs)
  case Nil
  with assms show ?thesis by simp
next
  case (Cons a list)
  have "Math_max_from NegInfinity (map Finite (a # list)) = Finite (fold max list a)"
    by (simp add: Math_max_from_Finite js_gt_def)
  also have "fold max list a = Max (set (a # list))"
    by (rule Max.set_eq_fold [symmetric])
  finally have "Math_max_from NegInfinity (map Finite xs) = Finite (Max (set xs))"
    by (simp only: Cons)
  with assms(2) show ?thesis by (simp add: Math_max_def)
qed

text \<open>With more values than the engine takes as arguments, the card throws.\<close>

lemma chart_statistics_too_many:
  "max_args < length readings \<Longrightarrow>
   chart_statistics max_args shortest readings key = Inl RangeError"
  by (simp add: chart_statistics_def minValue_def Math_min_def Let_def)

lemma chart_statistics_returns:
  "length readings \<le> max_args \<Longrightarrow>
   \<exists>shown. chart_statistics max_args shortest readings key = Inr shown"
  by (simp add: chart_statistics_def minValue_def maxValue_def Math_min_def Math_max_def
        Let_def)

lemma chart_cards_returns:
  "length readings \<le> max_args \<Longrightarrow>
   \<exists>cards. chart_cards max_args shortest readings keys = Inr cards
           \<and> (\<forall>key\<in>set keys. \<forall>shown.
                 chart_statistics max_args shortest readings key = Inr shown
                 \<longrightarrow> (key, shown) \<in> set cards)"
proof (induction keys)
  case Nil
  then show ?case by simp
next
  case (Cons key keys)
  from Cons obtain cards where
    c: "chart_cards max_args shortest readings keys = Inr cards" and
    m: "\<forall>key\<in>set keys. \<forall>shown.
          chart_statistics max_args shortest readings key = Inr shown
          \<longrightarrow> (key, shown) \<in> set cards"
    by blast
  from chart_statistics_returns [OF Cons.prems] obtain shown where
    s: "chart_statistics max_args shortest readings key = Inr shown" by blast
  from c s m show ?case by auto
qed

text \<open>The running sum of the code is the sum in double arithmetic.\<close>

lemma foldl_double_add_overflow:
  "a \<noteq> NaN \<Longrightarrow> (\<forall>x. a \<noteq> Finite x) \<Longrightarrow> foldl double_add a (map Finite vs) = a"
  by (induction vs) (cases a; simp add: double_add_def)+

lemma to_double_not_NaN: "to_double x \<noteq> NaN"
  by (simp add: to_double_def Let_def)

lemma foldl_double_add:
  "foldl double_add (Finite s) (map Finite vs) = double_sum s vs"
proof (induction vs arbitrary: s)
  case Nil
  then show ?case by simp
next
  case (Cons v vs)
  have step: "double_add (Finite s) (Finite v) = to_double (s + v)"
    by (simp add: double_add_def)
  show ?case
  proof (cases "to_double (s + v)")
    case (Finite s')
    with step Cons.IH [of s'] show ?thesis by simp
  next
    case NaN
    with to_double_not_NaN show ?thesis by blast
  next
    case NegInfinity
    with step show ?thesis by (simp add: foldl_double_add_overflow)
  next
    case Infinity
    with step show ?thesis by (simp add: foldl_double_add_overflow)
  qed
qed

lemma avgValue_double_mean:
  "vs \<noteq> [] \<Longrightarrow> avgValue (map Finite vs) = double_mean vs"
  by (cases "double_sum 0 vs")
     (simp_all add: avgValue_def double_mean_def foldl_double_add double_div_def
        inf_of_sign_def)

text \<open>Where no operation rounds, the mean in double arithmetic is the arithmetic mean.\<close>

lemma double_sum_exact:
  "(\<forall>k\<le>length vs. to_double (s + sum_list (take k vs)) = Finite (s + sum_list (take k vs)))
   \<Longrightarrow> double_sum s vs = Finite (s + sum_list vs)"
proof (induction vs arbitrary: s)
  case Nil
  then show ?case by simp
next
  case (Cons v vs)
  from Cons.prems [rule_format, of 1] have 1: "to_double (s + v) = Finite (s + v)" by simp
  have "\<forall>k\<le>length vs. to_double (s + v + sum_list (take k vs))
                          = Finite (s + v + sum_list (take k vs))"
  proof (intro allI impI)
    fix k assume "k \<le> length vs"
    with Cons.prems [rule_format, of "Suc k"]
    show "to_double (s + v + sum_list (take k vs)) = Finite (s + v + sum_list (take k vs))"
      by (simp add: add.assoc)
  qed
  from Cons.IH [OF this] 1 show ?case by (simp add: add.assoc)
qed

lemma double_mean_exact:
  assumes "\<forall>k\<le>length vs. to_double (sum_list (take k vs)) = Finite (sum_list (take k vs))"
      and "to_double (arithmetic_mean vs) = Finite (arithmetic_mean vs)"
  shows "double_mean vs = Finite (arithmetic_mean vs)"
proof -
  from assms(1) have "double_sum 0 vs = Finite (0 + sum_list vs)"
    by (intro double_sum_exact) simp
  with assms(2) show ?thesis by (simp add: double_mean_def arithmetic_mean_def)
qed

lemma toFixed_20: "toFixed shortest (Suc 0) (Finite 20) = ''20.0''"
  by (simp add: toFixed_def Let_def)

lemma toFixed_22: "toFixed shortest (Suc 0) (Finite 22) = ''22.0''"
  by (simp add: toFixed_def Let_def)

lemma toFixed_24: "toFixed shortest (Suc 0) (Finite 24) = ''24.0''"
  by (simp add: toFixed_def Let_def)

lemma double_mean_20_22_24: "double_mean [20, 22, 24] = Finite 22"
  by code_simp

text \<open>The doubles nearest to 18.1 and 18.2 are the temperatures of \<open>sample_close\<close>.\<close>

lemma nearest_double_18_1:
  "to_double (181 / 10) = Finite (2547348539231437 / 140737488355328)"
  by code_simp

lemma nearest_double_18_2:
  "to_double (182 / 10) = Finite (5122844576133939 / 281474976710656)"
  by code_simp

lemma double_mean_close:
  "double_mean [2547348539231437 / 140737488355328, 5122844576133939 / 281474976710656]
     = Finite (2554385413649203 / 140737488355328)"
  by code_simp

lemma sample_close_temperatures:
  "map (metric_value ''temperature'') sample_close
     = map Finite [2547348539231437 / 140737488355328, 5122844576133939 / 281474976710656]"
  by (simp add: sample_close_def metric_value_def sample_reading_def)

lemma metric_value_fields:
  "map metric_value dataKeys
     = [temperature, humidity, pressure, co, co2, methane, lpg, pm25, pm10, noise, light]"
  by (simp add: dataKeys_def fun_eq_iff metric_value_def)

text \<open>
  C6, as stated, fails: the average is computed in double arithmetic and is not always the
  arithmetic mean of the values, nor displayed as it. For two readings with the
  temperatures 18.1 and 18.2 (the nearest doubles) the sum rounds down, the average
  computed is below the arithmetic mean, and the card displays 18.1 where the arithmetic
  mean displays as 18.2.
\<close>

theorem avgValue_not_arithmetic_mean:
  "sample_close \<noteq> []
   \<and> map (metric_value ''temperature'') sample_close
       = map Finite [2547348539231437 / 140737488355328, 5122844576133939 / 281474976710656]
   \<and> avgValue (map (metric_value ''temperature'') sample_close)
       = Finite (2554385413649203 / 140737488355328)
   \<and> arithmetic_mean [2547348539231437 / 140737488355328, 5122844576133939 / 281474976710656]
       = 10217541654596813 / 562949953421312
   \<and> avgValue (map (metric_value ''temperature'') sample_close)
       \<noteq> Finite (arithmetic_mean
                    [2547348539231437 / 140737488355328, 5122844576133939 / 281474976710656])
   \<and> chart_statistics sample_max_args sample_shortest sample_close ''temperature''
       = Inr \<lparr>shown_min = ''18.1'', shown_avg = ''18.1'', shown_max = ''18.2''\<rparr>
   \<and> toFixed sample_shortest 1
        (Finite (arithmetic_mean
                   [2547348539231437 / 140737488355328, 5122844576133939 / 281474976710656]))
       = ''18.2''"
proof -
  have ne: "sample_close \<noteq> []" by (simp add: sample_close_def)
  have av: "avgValue (map (metric_value ''temperature'') sample_close)
              = Finite (2554385413649203 / 140737488355328)"
  proof -
    have "avgValue (map Finite
            [2547348539231437 / 140737488355328, 5122844576133939 / 281474976710656])
          = double_mean
              [2547348539231437 / 140737488355328, 5122844576133939 / 281474976710656]"
      by (rule avgValue_double_mean) simp
    then show ?thesis by (simp only: sample_close_temperatures double_mean_close)
  qed
  have am: "arithmetic_mean
              [2547348539231437 / 140737488355328, 5122844576133939 / 281474976710656]
            = 10217541654596813 / 562949953421312"
    by (simp add: arithmetic_mean_def)
  have mn: "minValue sample_max_args (map (metric_value ''temperature'') sample_close)
              = Inr (Finite (2547348539231437 / 140737488355328))"
    by (simp add: sample_close_temperatures minValue_def Math_min_def sample_max_args_def)
  have mx: "maxValue sample_max_args (map (metric_value ''temperature'') sample_close)
              = Inr (Finite (5122844576133939 / 281474976710656))"
    by (simp add: sample_close_temperatures maxValue_def Math_max_def sample_max_args_def
          js_gt_def)
  have t1: "toFixed sample_shortest (Suc 0) (Finite (2547348539231437 / 140737488355328))
              = ''18.1''"
    by (simp add: toFixed_def Let_def)
  have t2: "toFixed sample_shortest (Suc 0) (Finite (5122844576133939 / 281474976710656))
              = ''18.2''"
    by (simp add: toFixed_def Let_def)
  have t3: "toFixed sample_shortest (Suc 0) (Finite (2554385413649203 / 140737488355328))
              = ''18.1''"
    by (simp add: toFixed_def Let_def)
  have t4: "toFixed sample_shortest 1
        (Finite (arithmetic_mean
                   [2547348539231437 / 140737488355328, 5122844576133939 / 281474976710656]))
       = ''18.2''"
    unfolding am by (simp add: toFixed_def Let_def)
  have neq: "avgValue (map (metric_value ''temperature'') sample_close)
       \<noteq> Finite (arithmetic_mean
                    [2547348539231437 / 140737488355328, 5122844576133939 / 281474976710656])"
    unfolding av am by simp
  have st: "chart_statistics sample_max_args sample_shortest sample_close ''temperature''
       = Inr \<lparr>shown_min = ''18.1'', shown_avg = ''18.1'', shown_max = ''18.2''\<rparr>"
    by (simp add: chart_statistics_def Let_def mn mx av t1 t2 t3)
  from ne sample_close_temperatures av am neq st t4 show ?thesis by blast
qed

text \<open>
  C6, amended. For a non-empty loaded collection that has no more readings than
  \<open>Math.min\<close> and \<open>Math.max\<close> take as arguments, and a metric of \<open>chartConfigs\<close>
  whose values \<open>vs\<close> (the field of that name in each reading) are finite: the minimum
  computed is the least of \<open>vs\<close> and the maximum the greatest; the average is the sum
  divided by the count in double arithmetic, the values added to 0 from left to right and
  every operation rounded to the nearest double, and it is the arithmetic mean of \<open>vs\<close>
  whenever none of these operations rounds; the card displays the three with one digit
  after the point. For the values 20, 22 and 24 the card displays 20.0, 22.0 and 24.0.
\<close>

theorem chart_statistics_min_avg_max:
  assumes "readings \<noteq> []" and "length readings \<le> max_args"
      and "map (metric_value key) readings = map Finite vs"
  shows "map metric_value dataKeys
           = [temperature, humidity, pressure, co, co2, methane, lpg, pm25, pm10, noise, light]
   \<and> minValue max_args (map (metric_value key) readings) = Inr (Finite (Min (set vs)))
   \<and> maxValue max_args (map (metric_value key) readings) = Inr (Finite (Max (set vs)))
   \<and> avgValue (map (metric_value key) readings) = double_mean vs
   \<and> ((\<forall>k\<le>length vs. to_double (sum_list (take k vs)) = Finite (sum_list (take k vs)))
        \<and> to_double (arithmetic_mean vs) = Finite (arithmetic_mean vs)
       \<longrightarrow> avgValue (map (metric_value key) readings) = Finite (arithmetic_mean vs))
   \<and> chart_statistics max_args shortest readings key =
        Inr \<lparr>shown_min = toFixed shortest 1 (Finite (Min (set vs))),
             shown_avg = toFixed shortest 1 (double_mean vs),
             shown_max = toFixed shortest 1 (Finite (Max (set vs)))\<rparr>
   \<and> (key \<in> set dataKeys \<longrightarrow>
        (\<exists>grid shown. charts_grid max_args shortest readings = Inr (Some grid)
                \<and> chart_statistics max_args shortest readings key = Inr shown
                \<and> (key, shown) \<in> set grid))
   \<and> (vs = [20, 22, 24] \<longrightarrow>
        chart_statistics max_args shortest readings key =
          Inr \<lparr>shown_min = ''20.0'', shown_avg = ''22.0'', shown_max = ''24.0''\<rparr>)"
proof -
  from assms have ne: "vs \<noteq> []" by auto
  from assms have len: "length vs \<le> max_args"
    by (metis length_map)
  have mn: "minValue max_args (map (metric_value key) readings) = Inr (Finite (Min (set vs)))"
    using ne len by (simp add: minValue_def assms(3) Math_min_Finite)
  have mx: "maxValue max_args (map (metric_value key) readings) = Inr (Finite (Max (set vs)))"
    using ne len by (simp add: maxValue_def assms(3) Math_max_Finite)
  have av: "avgValue (map (metric_value key) readings) = double_mean vs"
    using ne by (simp add: assms(3) avgValue_double_mean)
  have exact: "(\<forall>k\<le>length vs. to_double (sum_list (take k vs)) = Finite (sum_list (take k vs)))
        \<and> to_double (arithmetic_mean vs) = Finite (arithmetic_mean vs)
       \<longrightarrow> avgValue (map (metric_value key) readings) = Finite (arithmetic_mean vs)"
    using double_mean_exact [of vs] by (simp add: av)
  have st: "chart_statistics max_args shortest readings key =
        Inr \<lparr>shown_min = toFixed shortest 1 (Finite (Min (set vs))),
             shown_avg = toFixed shortest 1 (double_mean vs),
             shown_max = toFixed shortest 1 (Finite (Max (set vs)))\<rparr>"
    by (simp add: chart_statistics_def Let_def mn av mx)
  have gr: "key \<in> set dataKeys \<longrightarrow>
        (\<exists>grid shown. charts_grid max_args shortest readings = Inr (Some grid)
                \<and> chart_statistics max_args shortest readings key = Inr shown
                \<and> (key, shown) \<in> set grid)"
  proof
    assume k: "key \<in> set dataKeys"
    from chart_cards_returns [OF assms(2), of shortest dataKeys] obtain cards where
      c: "chart_cards max_args shortest readings dataKeys = Inr cards" and
      m: "\<forall>key\<in>set dataKeys. \<forall>shown.
            chart_statistics max_args shortest readings key = Inr shown
            \<longrightarrow> (key, shown) \<in> set cards"
      by blast
    from c assms(1) have "charts_grid max_args shortest readings = Inr (Some cards)"
      by (simp add: charts_grid_def)
    with m k st show "\<exists>grid shown. charts_grid max_args shortest readings = Inr (Some grid)
                \<and> chart_statistics max_args shortest readings key = Inr shown
                \<and> (key, shown) \<in> set grid"
      by blast
  qed
  have ex: "vs = [20, 22, 24] \<longrightarrow>
        chart_statistics max_args shortest readings key =
          Inr \<lparr>shown_min = ''20.0'', shown_avg = ''22.0'', shown_max = ''24.0''\<rparr>"
  proof
    assume v: "vs = [20, 22, 24]"
    have "Min (set vs) = 20" "Max (set vs) = 24" "double_mean vs = Finite 22"
      by (simp_all add: v double_mean_20_22_24)
    then show "chart_statistics max_args shortest readings key =
          Inr \<lparr>shown_min = ''20.0'', shown_avg = ''22.0'', shown_max = ''24.0''\<rparr>"
      by (simp add: st toFixed_20 toFixed_22 toFixed_24)
  qed
  from metric_value_fields mn mx av exact st gr ex show ?thesis by blast
qed

theorem chart_statistics_min_avg_max_witness:
  "sample_range \<noteq> []
   \<and> length sample_range \<le> sample_max_args
   \<and> map (metric_value ''temperature'') sample_range = map Finite [20, 22, 24]
   \<and> ''temperature'' \<in> set dataKeys
   \<and> avgValue (map (metric_value ''temperature'') sample_range)
       = Finite (arithmetic_mean [20, 22, 24])
   \<and> chart_statistics sample_max_args sample_shortest sample_range ''temperature'' =
        Inr \<lparr>shown_min = ''20.0'', shown_avg = ''22.0'', shown_max = ''24.0''\<rparr>"
proof -
  have 1: "sample_range \<noteq> []" by (simp add: sample_range_def)
  have 2: "length sample_range \<le> sample_max_args"
    by (simp add: sample_range_def sample_max_args_def)
  have 3: "map (metric_value ''temperature'') sample_range = map Finite [20, 22, 24]"
    by (simp add: sample_range_def metric_value_def sample_reading_def)
  have 4: "''temperature'' \<in> set dataKeys" by (simp add: dataKeys_def)
  have 5: "arithmetic_mean [20, 22, 24] = 22" by (simp add: arithmetic_mean_def)
  show ?thesis
    using 1 2 3 4 5 chart_statistics_min_avg_max [OF 1 2 3, of sample_shortest]
    by (simp add: double_mean_20_22_24 toFixed_20 toFixed_22 toFixed_24)
qed

section \<open>Properties of the CSV export\<close>

lemma trunc_ms:
  "(if 0 \<le> real_of_int t * 1000 then \<lfloor>real_of_int t * 1000\<rfloor> else \<lceil>real_of_int t * 1000\<rceil>)
     = t * 1000"
proof -
  have "real_of_int t * 1000 = real_of_int (t * 1000)" by simp
  then show ?thesis by (simp only: floor_of_int ceiling_of_int if_cancel)
qed

lemma abs_ms:
  "(\<bar>real_of_int t * 1000\<bar> \<le> 8640000000000000) = (\<bar>t * 1000\<bar> \<le> 8640000000000000)"
proof -
  have "\<bar>real_of_int t * 1000\<bar> = real_of_int \<bar>t * 1000\<bar>" by simp
  moreover have "(real_of_int \<bar>t * 1000\<bar> \<le> real_of_int 8640000000000000)
                   = (\<bar>t * 1000\<bar> \<le> 8640000000000000)"
    by (rule of_int_le_iff)
  ultimately show ?thesis by simp
qed

lemma Date_toISOString_ms:
  "Date_toISOString iso_text (js_mul (Finite (of_int t)) (Finite 1000)) =
     (if \<bar>t * 1000\<bar> \<le> 8640000000000000 then Inr (iso_text (t * 1000)) else Inl RangeError)"
  unfolding Date_toISOString_def js_mul.simps number.case trunc_ms abs_ms ..

text \<open>The template literal of a row is its eleven columns joined by commas.\<close>

lemma csv_row_Finite:
  "parseInt (recorded_at row) = Finite (of_int t) \<Longrightarrow>
   csv_row iso_text shortest row =
     (if \<bar>t * 1000\<bar> \<le> 8640000000000000
      then Inr (join '','' [iso_text (t * 1000),
                 Number_toString shortest (temperature row),
                 Number_toString shortest (humidity row),
                 Number_toString shortest (pressure row),
                 Number_toString shortest (co row),
                 Number_toString shortest (methane row),
                 Number_toString shortest (lpg row),
                 Number_toString shortest (pm25 row),
                 Number_toString shortest (pm10 row),
                 Number_toString shortest (noise row),
                 Number_toString shortest (light row)])
      else Inl RangeError)"
  by (simp add: csv_row_def Date_toISOString_ms del: js_mul.simps)

lemma csv_row_NaN:
  "parseInt (recorded_at row) = NaN \<Longrightarrow> csv_row iso_text shortest row = Inl RangeError"
  by (simp add: csv_row_def Date_toISOString_def)

lemma csv_row_Inr:
  assumes "csv_row iso_text shortest row = Inr line"
  shows "\<exists>t::int. parseInt (recorded_at row) = Finite (of_int t)
           \<and> \<bar>t * 1000\<bar> \<le> 8640000000000000
           \<and> line = join '','' [iso_text (t * 1000),
                 Number_toString shortest (temperature row),
                 Number_toString shortest (humidity row),
                 Number_toString shortest (pressure row),
                 Number_toString shortest (co row),
                 Number_toString shortest (methane row),
                 Number_toString shortest (lpg row),
                 Number_toString shortest (pm25 row),
                 Number_toString shortest (pm10 row),
                 Number_toString shortest (noise row),
                 Number_toString shortest (light row)]"
proof -
  consider "parseInt (recorded_at row) = NaN"
    | t :: int where "parseInt (recorded_at row) = Finite (of_int t)"
    using parseInt_cases by blast
  then show ?thesis
  proof cases
    case 1
    with assms show ?thesis by (simp add: csv_row_NaN)
  next
    case 2
    from assms show ?thesis
      unfolding csv_row_Finite [OF 2] using 2 by (auto split: if_splits)
  qed
qed

lemma csv_rows_Inr:
  "csv_rows iso_text shortest rs = Inr lines \<Longrightarrow>
   length lines = length rs
   \<and> (\<forall>i<length rs. csv_row iso_text shortest (rs ! i) = Inr (lines ! i))"
proof (induction rs arbitrary: lines)
  case Nil
  then show ?case by simp
next
  case (Cons r rs)
  from Cons.prems obtain line rest where
    l: "csv_row iso_text shortest r = Inr line" and
    r: "csv_rows iso_text shortest rs = Inr rest" and
    e: "lines = line # rest"
    by (auto split: sum.splits)
  from Cons.IH [OF r] l e show ?case
    by (auto simp: nth_Cons split: nat.splits)
qed

lemma csv_rows_total:
  "(\<forall>r\<in>set rs. \<exists>line. csv_row iso_text shortest r = Inr line) \<Longrightarrow>
   \<exists>lines. csv_rows iso_text shortest rs = Inr lines"
  by (induction rs) auto

lemma exportData_Downloaded:
  "exportData iso_text shortest format_day c st = (st', Downloaded file) \<Longrightarrow>
   st' = st \<and> rangeData c \<noteq> [] \<and> mime file = ''text/csv''
   \<and> (\<exists>lines. csv_rows iso_text shortest (rangeData c) = Inr lines
          \<and> content file = join [CHR 0x0A] (csv_header # lines))"
  by (auto simp: exportData_def Let_def split: if_splits sum.splits)

lemma sample_parse_60: "parseInt ''1700000060'' = Finite 1700000060"
  by (simp add: parseInt_eval)

lemma sample_parse_120: "parseInt ''1700000120'' = Finite 1700000120"
  by (simp add: parseInt_eval)

lemma sample_export:
  "exportData sample_iso_text sample_shortest sample_format_day sample_analytics sample_analytics
     = (sample_analytics, Downloaded sample_file)"
  by (simp add: exportData_def sample_analytics_def analytics_initial_def sample_range_def
        sample_reading_def csv_row_def sample_parse sample_parse_60 sample_parse_120
        Date_toISOString_def sample_iso_text_def sample_shortest_def sample_format_day_def
        Number_toString_def csv_header_def sample_file_def)

text \<open>
  C8. The header of the export is exactly
  \<open>Timestamp,Temperature,Humidity,Pressure,CO,Methane,LPG,PM2.5,PM10,Noise,Light\<close>. A file
  that is downloaded holds the header and one row for each loaded reading, in order, joined
  by line feeds; a row is the text of the date at \<open>recorded_at\<close> followed by temperature,
  humidity, pressure, CO, methane, LPG, PM2.5, PM10, noise and light, joined by commas. The
  CO2 field of a reading has no influence on its row. A file is downloaded whenever the
  collection is not empty, every \<open>recorded_at\<close> parses to a valid date and both days of the
  file name can be formatted.
\<close>

theorem exportData_csv_layout:
  "csv_header = ''Timestamp,Temperature,Humidity,Pressure,CO,Methane,LPG,PM2.5,PM10,Noise,Light''
   \<and> (exportData iso_text shortest format_day c st = (st', Downloaded file) \<longrightarrow>
        (\<exists>lines. content file = join [CHR 0x0A] (csv_header # lines)
           \<and> length lines = length (rangeData c)
           \<and> (\<forall>i<length (rangeData c). \<exists>t::int.
                 parseInt (recorded_at (rangeData c ! i)) = Finite (of_int t)
                 \<and> lines ! i = join '',''
                     [iso_text (t * 1000),
                      Number_toString shortest (temperature (rangeData c ! i)),
                      Number_toString shortest (humidity (rangeData c ! i)),
                      Number_toString shortest (pressure (rangeData c ! i)),
                      Number_toString shortest (co (rangeData c ! i)),
                      Number_toString shortest (methane (rangeData c ! i)),
                      Number_toString shortest (lpg (rangeData c ! i)),
                      Number_toString shortest (pm25 (rangeData c ! i)),
                      Number_toString shortest (pm10 (rangeData c ! i)),
                      Number_toString shortest (noise (rangeData c ! i)),
                      Number_toString shortest (light (rangeData c ! i))])))
   \<and> csv_row iso_text shortest (row\<lparr>co2 := x\<rparr>) = csv_row iso_text shortest row
   \<and> (rangeData c \<noteq> []
        \<and> (\<forall>r\<in>set (rangeData c). \<exists>t::int. parseInt (recorded_at r) = Finite (of_int t)
                                          \<and> \<bar>t * 1000\<bar> \<le> 8640000000000000)
        \<and> format_day (startDate c) = Inr from_day \<and> format_day (endDate c) = Inr to_day
       \<longrightarrow> (\<exists>file. exportData iso_text shortest format_day c st = (st, Downloaded file)))"
proof (intro conjI impI)
  show "csv_header
          = ''Timestamp,Temperature,Humidity,Pressure,CO,Methane,LPG,PM2.5,PM10,Noise,Light''"
    by (simp add: csv_header_def)
next
  assume "exportData iso_text shortest format_day c st = (st', Downloaded file)"
  then obtain lines where
    rows: "csv_rows iso_text shortest (rangeData c) = Inr lines" and
    cont: "content file = join [CHR 0x0A] (csv_header # lines)"
    using exportData_Downloaded by blast
  note R = csv_rows_Inr [OF rows]
  have "\<forall>i<length (rangeData c). \<exists>t::int.
                 parseInt (recorded_at (rangeData c ! i)) = Finite (of_int t)
                 \<and> lines ! i = join '',''
                     [iso_text (t * 1000),
                      Number_toString shortest (temperature (rangeData c ! i)),
                      Number_toString shortest (humidity (rangeData c ! i)),
                      Number_toString shortest (pressure (rangeData c ! i)),
                      Number_toString shortest (co (rangeData c ! i)),
                      Number_toString shortest (methane (rangeData c ! i)),
                      Number_toString shortest (lpg (rangeData c ! i)),
                      Number_toString shortest (pm25 (rangeData c ! i)),
                      Number_toString shortest (pm10 (rangeData c ! i)),
                      Number_toString shortest (noise (rangeData c ! i)),
                      Number_toString shortest (light (rangeData c ! i))]"
  proof (intro allI impI)
    fix i assume "i < length (rangeData c)"
    with R have "csv_row iso_text shortest (rangeData c ! i) = Inr (lines ! i)" by blast
    from csv_row_Inr [OF this]
    show "\<exists>t::int.
                 parseInt (recorded_at (rangeData c ! i)) = Finite (of_int t)
                 \<and> lines ! i = join '',''
                     [iso_text (t * 1000),
                      Number_toString shortest (temperature (rangeData c ! i)),
                      Number_toString shortest (humidity (rangeData c ! i)),
                      Number_toString shortest (pressure (rangeData c ! i)),
                      Number_toString shortest (co (rangeData c ! i)),
                      Number_toString shortest (methane (rangeData c ! i)),
                      Number_toString shortest (lpg (rangeData c ! i)),
                      Number_toString shortest (pm25 (rangeData c ! i)),
                      Number_toString shortest (pm10 (rangeData c ! i)),
                      Number_toString shortest (noise (rangeData c ! i)),
                      Number_toString shortest (light (rangeData c ! i))]"
      by blast
  qed
  with cont R show "\<exists>lines. content file = join [CHR 0x0A] (csv_header # lines)
           \<and> length lines = length (rangeData c)
           \<and> (\<forall>i<length (rangeData c). \<exists>t::int.
                 parseInt (recorded_at (rangeData c ! i)) = Finite (of_int t)
                 \<and> lines ! i = join '',''
                     [iso_text (t * 1000),
                      Number_toString shortest (temperature (rangeData c ! i)),
                      Number_toString shortest (humidity (rangeData c ! i)),
                      Number_toString shortest (pressure (rangeData c ! i)),
                      Number_toString shortest (co (rangeData c ! i)),
                      Number_toString shortest (methane (rangeData c ! i)),
                      Number_toString shortest (lpg (rangeData c ! i)),
                      Number_toString shortest (pm25 (rangeData c ! i)),
                      Number_toString shortest (pm10 (rangeData c ! i)),
                      Number_toString shortest (noise (rangeData c ! i)),
                      Number_toString shortest (light (rangeData c ! i))])"
    by blast
next
  show "csv_row iso_text shortest (row\<lparr>co2 := x\<rparr>) = csv_row iso_text shortest row"
    by (simp add: csv_row_def split: sum.splits)
next
  assume a: "rangeData c \<noteq> []
        \<and> (\<forall>r\<in>set (rangeData c). \<exists>t::int. parseInt (recorded_at r) = Finite (of_int t)
                                          \<and> \<bar>t * 1000\<bar> \<le> 8640000000000000)
        \<and> format_day (startDate c) = Inr from_day \<and> format_day (endDate c) = Inr to_day"
  have "\<forall>r\<in>set (rangeData c). \<exists>line. csv_row iso_text shortest r = Inr line"
  proof
    fix r assume "r \<in> set (rangeData c)"
    with a obtain t :: int where "parseInt (recorded_at r) = Finite (of_int t)"
      "\<bar>t * 1000\<bar> \<le> 8640000000000000" by blast
    then show "\<exists>line. csv_row iso_text shortest r = Inr line"
      by (simp add: csv_row_Finite)
  qed
  then obtain lines where "csv_rows iso_text shortest (rangeData c) = Inr lines"
    using csv_rows_total by blast
  with a show "\<exists>file. exportData iso_text shortest format_day c st = (st, Downloaded file)"
    by (simp add: exportData_def)
qed

theorem exportData_csv_layout_witness:
  "exportData sample_iso_text sample_shortest sample_format_day sample_analytics sample_analytics
     = (sample_analytics, Downloaded sample_file)
   \<and> length (rangeData sample_analytics) = 3
   \<and> (\<exists>lines. content sample_file = join [CHR 0x0A] (csv_header # lines)
         \<and> length lines = 3
         \<and> lines ! 0 = join '','' [sample_iso_text 1700000000000, ''20'', ''45'', ''1013'',
                                     ''1'', ''0'', ''0'', ''12'', ''20'', ''40'', ''300''])"
proof -
  have n: "length (rangeData sample_analytics) = 3"
    by (simp add: sample_analytics_def sample_range_def)
  have r0: "rangeData sample_analytics ! 0 = sample_reading ''d1'' ''1700000000'' (Finite 20)"
    by (simp add: sample_analytics_def sample_range_def)
  from exportData_csv_layout [of sample_iso_text sample_shortest sample_format_day
         sample_analytics sample_analytics sample_analytics sample_file] sample_export
  obtain lines where
    c: "content sample_file = join [CHR 0x0A] (csv_header # lines)" and
    l: "length lines = length (rangeData sample_analytics)" and
    r: "\<forall>i<length (rangeData sample_analytics). \<exists>t::int.
          parseInt (recorded_at (rangeData sample_analytics ! i)) = Finite (of_int t)
          \<and> lines ! i = join '',''
              [sample_iso_text (t * 1000),
               Number_toString sample_shortest (temperature (rangeData sample_analytics ! i)),
               Number_toString sample_shortest (humidity (rangeData sample_analytics ! i)),
               Number_toString sample_shortest (pressure (rangeData sample_analytics ! i)),
               Number_toString sample_shortest (co (rangeData sample_analytics ! i)),
               Number_toString sample_shortest (methane (rangeData sample_analytics ! i)),
               Number_toString sample_shortest (lpg (rangeData sample_analytics ! i)),
               Number_toString sample_shortest (pm25 (rangeData sample_analytics ! i)),
               Number_toString sample_shortest (pm10 (rangeData sample_analytics ! i)),
               Number_toString sample_shortest (noise (rangeData sample_analytics ! i)),
               Number_toString sample_shortest (light (rangeData sample_analytics ! i))]"
    by blast
  from r n obtain t :: int where
    t: "parseInt (recorded_at (rangeData sample_analytics ! 0)) = Finite (of_int t)" and
    l0: "lines ! 0 = join '',''
              [sample_iso_text (t * 1000),
               Number_toString sample_shortest (temperature (rangeData sample_analytics ! 0)),
               Number_toString sample_shortest (humidity (rangeData sample_analytics ! 0)),
               Number_toString sample_shortest (pressure (rangeData sample_analytics ! 0)),
               Number_toString sample_shortest (co (rangeData sample_analytics ! 0)),
               Number_toString sample_shortest (methane (rangeData sample_analytics ! 0)),
               Number_toString sample_shortest (lpg (rangeData sample_analytics ! 0)),
               Number_toString sample_shortest (pm25 (rangeData sample_analytics ! 0)),
               Number_toString sample_shortest (pm10 (rangeData sample_analytics ! 0)),
               Number_toString sample_shortest (noise (rangeData sample_analytics ! 0)),
               Number_toString sample_shortest (light (rangeData sample_analytics ! 0))]"
    by force
  from t have "t = 1700000000"
    by (simp add: r0 sample_reading_def sample_parse)
  with l0 have "lines ! 0 = join '','' [sample_iso_text 1700000000000, ''20'', ''45'', ''1013'',
                                     ''1'', ''0'', ''0'', ''12'', ''20'', ''40'', ''300'']"
    by (simp add: r0 sample_reading_def Number_toString_def sample_shortest_def)
  with c l n sample_export show ?thesis by auto
qed

text \<open>
  C9. With an empty loaded collection \<open>exportData\<close> returns at once: no file is created
  and the state is the one before the call.
\<close>

theorem exportData_empty_noop:
  "rangeData c = [] \<Longrightarrow> exportData iso_text shortest format_day c st = (st, NoFile)"
  by (simp add: exportData_def)

theorem exportData_empty_noop_witness:
  "rangeData analytics_initial = []
   \<and> exportData sample_iso_text sample_shortest sample_format_day analytics_initial
        analytics_initial = (analytics_initial, NoFile)"
proof -
  have e: "rangeData analytics_initial = []" by (simp add: analytics_initial_def)
  show ?thesis
    using e exportData_empty_noop [OF e, of sample_iso_text sample_shortest sample_format_day
            analytics_initial]
    by simp
qed

end
